theory Spec2Isabelle
  imports Main
begin

section \<open>The partition index views of \<open>Grid1D\<close> (fipy/meshes/grid1D.py)\<close>

subsection \<open>The resolved geometry read by the accessors\<close>

text \<open>
  \<open>self.overlap\<close> is a dictionary with the two keys \<open>'left'\<close> and \<open>'right'\<close>; the
  accessors read \<open>self.offset\<close>, \<open>self.overlap\<close>, \<open>self.nx\<close> and \<open>self.numberOfFaces\<close>
  and nothing else. Python integers are unbounded, so every field is an \<open>int\<close>, and the
  sums and differences the accessors form before they call \<open>arange\<close> are exact.
\<close>

record overlap_dict =
  left :: int
  right :: int

record grid1D =
  offset :: int
  overlap :: overlap_dict
  nx :: int
  numberOfFaces :: int

subsection \<open>\<open>numerix.arange\<close>\<close>

text \<open>
  \<open>fipy.tools.numerix\<close> re-exports NumPy's \<open>arange\<close>, which builds an array of
  fixed-width elements (on a 64-bit platform). Called with two Python integers it uses
  the step 1 and works as follows.
  \<^item> The length is the difference \<open>stop - start\<close>, taken through a double. A difference
    below \<open>-2^63\<close> (more than 1024 below, since doubles are 2048 apart there) does not
    convert back to a machine integer and the call raises \<open>ValueError\<close>.
  \<^item> A length of zero or less gives the array without elements; nothing is filled.
  \<^item> An array of \<open>2^60\<close> or more elements of 8 bytes exceeds the largest array size and
    the call raises \<open>ValueError\<close>; a smaller array that the process cannot obtain raises
    \<open>MemoryError\<close>. \<open>room\<close> is the number of elements the process can obtain.
  \<^item> When both bounds fit a signed 64-bit integer the elements are \<open>int64\<close> and slot \<open>i\<close>
    holds \<open>start + i\<close>. Otherwise NumPy picks another element type: \<open>float64\<close> once a
    bound reaches \<open>2^63\<close>, where every value is rounded to the nearest double, so that
    \<open>2^63 - 2\<close>, \<open>2^63 - 1\<close> and \<open>2^63\<close> all become \<open>2^63\<close>. Of such an array only the
    length is recorded here.
\<close>

datatype numpy_error = ValueError | MemoryError

datatype ndarray =
    IntArray "int list"
  | OtherArray nat

type_synonym ids_result = "numpy_error + ndarray"

definition int64 :: "int \<Rightarrow> bool" where
  "int64 i = (- (2 ^ 63) \<le> i \<and> i < 2 ^ 63)"

definition arange :: "nat \<Rightarrow> int \<Rightarrow> int \<Rightarrow> ids_result" where
  "arange room start stop =
     (let d = stop - start in
      if d < - (2 ^ 63) - 1024 then Inl ValueError
      else if d \<le> 0 then Inr (IntArray [])
      else if 2 ^ 60 \<le> d then Inl ValueError
      else if int room < d then Inl MemoryError
      else if int64 start \<and> int64 stop
        then Inr (IntArray (map (\<lambda>i. start + int i) [0..<nat d]))
        else Inr (OtherArray (nat d)))"

subsection \<open>The eight accessors\<close>

definition globalNonOverlappingCellIDs :: "nat \<Rightarrow> grid1D \<Rightarrow> ids_result" where
  "globalNonOverlappingCellIDs room self =
     arange room (offset self + left (overlap self))
                 (offset self + nx self - right (overlap self))"

definition globalOverlappingCellIDs :: "nat \<Rightarrow> grid1D \<Rightarrow> ids_result" where
  "globalOverlappingCellIDs room self = arange room (offset self) (offset self + nx self)"

definition localNonOverlappingCellIDs :: "nat \<Rightarrow> grid1D \<Rightarrow> ids_result" where
  "localNonOverlappingCellIDs room self =
     arange room (left (overlap self)) (nx self - right (overlap self))"

definition localOverlappingCellIDs :: "nat \<Rightarrow> grid1D \<Rightarrow> ids_result" where
  "localOverlappingCellIDs room self = arange room 0 (nx self)"

definition globalNonOverlappingFaceIDs :: "nat \<Rightarrow> grid1D \<Rightarrow> ids_result" where
  "globalNonOverlappingFaceIDs room self =
     arange room (offset self + left (overlap self))
                 (offset self + numberOfFaces self - right (overlap self))"

definition globalOverlappingFaceIDs :: "nat \<Rightarrow> grid1D \<Rightarrow> ids_result" where
  "globalOverlappingFaceIDs room self =
     arange room (offset self) (offset self + numberOfFaces self)"

definition localNonOverlappingFaceIDs :: "nat \<Rightarrow> grid1D \<Rightarrow> ids_result" where
  "localNonOverlappingFaceIDs room self =
     arange room (left (overlap self)) (numberOfFaces self - right (overlap self))"

definition localOverlappingFaceIDs :: "nat \<Rightarrow> grid1D \<Rightarrow> ids_result" where
  "localOverlappingFaceIDs room self = arange room 0 (numberOfFaces self)"

lemmas accessor_defs =
  globalNonOverlappingCellIDs_def globalOverlappingCellIDs_def
  localNonOverlappingCellIDs_def localOverlappingCellIDs_def
  globalNonOverlappingFaceIDs_def globalOverlappingFaceIDs_def
  localNonOverlappingFaceIDs_def localOverlappingFaceIDs_def

subsection \<open>Reading a result\<close>

text \<open>
  A call \<open>arange(lo, hi)\<close> is within reach when both bounds and their difference fit a
  signed 64-bit integer and the process can obtain the \<open>hi - lo\<close> elements.
\<close>

definition fits :: "nat \<Rightarrow> int \<Rightarrow> int \<Rightarrow> bool" where
  "fits room lo hi =
     (int64 lo \<and> int64 hi \<and> int64 (hi - lo) \<and> hi - lo \<le> int room \<and> hi - lo < 2 ^ 60)"

text \<open>The number of elements of an array, and of a result that is an array.\<close>

fun array_length :: "ndarray \<Rightarrow> nat" where
  "array_length (IntArray xs) = length xs"
| "array_length (OtherArray n) = n"

fun result_length :: "ids_result \<Rightarrow> numpy_error + nat" where
  "result_length (Inl e) = Inl e"
| "result_length (Inr a) = Inr (array_length a)"



subsection \<open>Geometries named by the specification\<close>

text \<open>
  The invariants that section 3 of the specification places on a resolved geometry:
  no field is negative, and the two overlaps together do not exceed the local cell
  count nor the local face count.
\<close>

definition valid_geometry :: "grid1D \<Rightarrow> bool" where
  "valid_geometry g =
     (0 \<le> offset g \<and> 0 \<le> left (overlap g) \<and> 0 \<le> right (overlap g)
      \<and> 0 \<le> nx g \<and> 0 \<le> numberOfFaces g
      \<and> left (overlap g) + right (overlap g) \<le> nx g
      \<and> left (overlap g) + right (overlap g) \<le> numberOfFaces g)"

text \<open>
  The two workers of the specification's scenario: a global grid of 4 cells and 5 faces,
  split 2 + 2, each worker holding one ghost cell at the shared boundary. A grid of
  \<open>nx\<close> cells has \<open>nx + 1\<close> faces.
\<close>

definition workerA :: grid1D where
  "workerA = \<lparr>offset = 0, overlap = \<lparr>left = 0, right = 1\<rparr>, nx = 3, numberOfFaces = 4\<rparr>"

definition workerB :: grid1D where
  "workerB = \<lparr>offset = 1, overlap = \<lparr>left = 1, right = 0\<rparr>, nx = 3, numberOfFaces = 4\<rparr>"

text \<open>
  The geometry of a run with a single worker: offset 0, no ghost cell on either side,
  \<open>N\<close> cells and \<open>N + 1\<close> faces.
\<close>

definition serialGrid :: "int \<Rightarrow> grid1D" where
  "serialGrid N = \<lparr>offset = 0, overlap = \<lparr>left = 0, right = 0\<rparr>, nx = N, numberOfFaces = N + 1\<rparr>"

text \<open>
  A worker at offset 5 without any cell or face that still claims two ghost cells on
  the left and one on the right.
\<close>

definition ghostOnly :: grid1D where
  "ghostOnly = \<lparr>offset = 5, overlap = \<lparr>left = 2, right = 1\<rparr>, nx = 0, numberOfFaces = 0\<rparr>"


text \<open>
  A worker of three cells and four faces, without ghost cells, whose offset is
  \<open>2^63 - 2\<close>: its second cell has the largest ID a signed 64-bit integer can hold.
\<close>

definition farWorker :: grid1D where
  "farWorker =
     \<lparr>offset = 2 ^ 63 - 2, overlap = \<lparr>left = 0, right = 0\<rparr>, nx = 3, numberOfFaces = 4\<rparr>"

text \<open>
  A sequence of contiguous integers: empty, or each element the successor of the one
  before it. A result is such a sequence when it is an array of integers that is
  contiguous and strictly increasing.
\<close>

fun contiguous :: "int list \<Rightarrow> bool" where
  "contiguous [] = True"
| "contiguous [x] = True"
| "contiguous (x # y # ys) = (y = x + 1 \<and> contiguous (y # ys))"

fun contiguous_ids :: "ids_result \<Rightarrow> bool" where
  "contiguous_ids (Inr (IntArray xs)) = (contiguous xs \<and> sorted_wrt (<) xs)"
| "contiguous_ids (Inr (OtherArray n)) = False"
| "contiguous_ids (Inl e) = False"


text \<open>
  Modelled from the spec: the grid builder (\<open>fipy.meshes.builders\<close>) that decomposes a
  global grid among the workers is not among the sources. Following the two-worker
  scenario and the data model of the specification, a decomposition with a halo of one
  cell is given by the numbers of cells the workers own, in rank order. A worker holds
  one ghost cell on each side where it has a neighbour and none at the boundary of the
  global domain; its \<open>nx\<close> counts owned and ghost cells; its \<open>offset\<close> is the global ID
  of its first local cell, ghost or not; it has \<open>nx + 1\<close> faces. \<open>first\<close> tells
  whether the worker is the leftmost one and \<open>start\<close> is the global ID of its first
  owned cell.
\<close>

fun halo_workers :: "bool \<Rightarrow> int \<Rightarrow> nat list \<Rightarrow> grid1D list" where
  "halo_workers first start [] = []"
| "halo_workers first start (n # ns) =
     (let l = (if first then 0 else 1);
          r = (if ns = [] then 0 else 1);
          cells = int n + l + r
      in \<lparr>offset = start - l, overlap = \<lparr>left = l, right = r\<rparr>,
          nx = cells, numberOfFaces = cells + 1\<rparr>
         # halo_workers False (start + int n) ns)"

definition halo_decomposition :: "nat list \<Rightarrow> grid1D list" where
  "halo_decomposition ns = halo_workers True 0 ns"





section \<open>Facts about \<open>arange\<close>\<close>

lemma ramp_upto: "map (\<lambda>i. a + int i) [0..<nat (b - a)] = [a..b - 1]"
proof (rule nth_equalityI)
  show "length (map (\<lambda>i. a + int i) [0..<nat (b - a)]) = length [a..b - 1]"
    by simp
next
  fix k
  assume "k < length (map (\<lambda>i. a + int i) [0..<nat (b - a)])"
  then have k: "k < nat (b - a)"
    by simp
  then have "a + int k \<le> b - 1"
    by linarith
  with k show "map (\<lambda>i. a + int i) [0..<nat (b - a)] ! k = [a..b - 1] ! k"
    by simp
qed

lemma arange_fits: "fits room a b \<Longrightarrow> arange room a b = Inr (IntArray [a..b - 1])"
  by (auto simp: arange_def fits_def int64_def Let_def ramp_upto)


lemma upto_shift: "map (\<lambda>i. i + d) [a..b] = [a + d..b + d]"
proof (rule nth_equalityI)
  show "length (map (\<lambda>i. i + d) [a..b]) = length [a + d..b + d]"
    by simp
next
  fix k
  assume "k < length (map (\<lambda>i. i + d) [a..b])"
  then have "a + int k \<le> b"
    by simp
  then show "map (\<lambda>i. i + d) [a..b] ! k = [a + d..b + d] ! k"
    by simp
qed

lemma contiguous_nth:
  "contiguous xs \<longleftrightarrow> (\<forall>i. Suc i < length xs \<longrightarrow> xs ! Suc i = xs ! i + 1)"
proof (induction xs rule: contiguous.induct)
  case 1
  show ?case by simp
next
  case (2 x)
  show ?case by simp
next
  case (3 x y ys)
  have "(\<forall>i. Suc i < length (x # y # ys) \<longrightarrow> (x # y # ys) ! Suc i = (x # y # ys) ! i + 1)
        \<longleftrightarrow> (y = x + 1 \<and> (\<forall>i. Suc i < length (y # ys) \<longrightarrow> (y # ys) ! Suc i = (y # ys) ! i + 1))"
    (is "?L \<longleftrightarrow> ?R")
  proof
    assume l: ?L
    have "y = x + 1" using l [rule_format, of 0] by simp
    moreover have "\<forall>i. Suc i < length (y # ys) \<longrightarrow> (y # ys) ! Suc i = (y # ys) ! i + 1"
    proof (intro allI impI)
      fix i assume "Suc i < length (y # ys)"
      then show "(y # ys) ! Suc i = (y # ys) ! i + 1"
        using l [rule_format, of "Suc i"] by simp
    qed
    ultimately show ?R by simp
  next
    assume r: ?R
    show ?L
    proof (intro allI impI)
      fix i assume i: "Suc i < length (x # y # ys)"
      show "(x # y # ys) ! Suc i = (x # y # ys) ! i + 1"
      proof (cases i)
        case 0
        with r show ?thesis by simp
      next
        case (Suc j)
        with i r show ?thesis by simp
      qed
    qed
  qed
  with 3 show ?case by simp
qed

lemma contiguous_upto: "contiguous [a..b]"
  unfolding contiguous_nth by simp

lemma contiguous_ids_arange: "fits room a b \<Longrightarrow> contiguous_ids (arange room a b)"
  by (simp add: arange_fits contiguous_upto)

lemma arange_pair_shift:
  assumes "fits room a b" and "fits room (d + a) (d + b)"
  shows "arange room a b = Inr (IntArray [a..b - 1])
         \<and> arange room (d + a) (d + b) = Inr (IntArray (map (\<lambda>i. i + d) [a..b - 1]))"
proof -
  have "[d + a..d + b - 1] = map (\<lambda>i. i + d) [a..b - 1]"
    by (simp add: upto_shift algebra_simps)
  with assms show ?thesis
    by (simp add: arange_fits)
qed


lemma arange_whole_total:
  "(- (2 ^ 63) \<le> n \<and> n \<le> int room \<and> n < 2 ^ 60
      \<longrightarrow> result_length (arange room 0 n) = Inr (nat n)
          \<and> result_length (arange room d (d + n)) = Inr (nat n))
   \<and> (n \<le> 0 \<and> - (2 ^ 63) \<le> n
      \<longrightarrow> arange room 0 n = Inr (IntArray []) \<and> arange room d (d + n) = Inr (IntArray []))"
  by (simp add: arange_def Let_def)

lemma arange_owned_total:
  "(- (2 ^ 63) \<le> b - c - a \<and> b - c - a \<le> int room \<and> b - c - a < 2 ^ 60
      \<longrightarrow> result_length (arange room a (b - c)) = Inr (nat (b - c - a))
          \<and> result_length (arange room (d + a) (d + b - c)) = Inr (nat (b - c - a)))
   \<and> (b - c - a \<le> 0 \<and> - (2 ^ 63) \<le> b - c - a
      \<longrightarrow> arange room a (b - c) = Inr (IntArray [])
          \<and> arange room (d + a) (d + b - c) = Inr (IntArray []))"
proof -
  have e: "d + b - c - (d + a) = b - c - a"
    by simp
  show ?thesis
    unfolding arange_def Let_def e by simp
qed

section \<open>The modelled decomposition\<close>










lemma halo_decomposition_scenario: "halo_decomposition [2, 2] = [workerA, workerB]"
  by (simp add: halo_decomposition_def workerA_def workerB_def)



section \<open>The ranges of the accessors\<close>

text \<open>
  C1, at a worker whose offset is \<open>2^63 - 2\<close>. Its global cell IDs would be
  \<open>2^63 - 2\<close>, \<open>2^63 - 1\<close> and \<open>2^63\<close>, but the upper bound \<open>2^63 + 1\<close> does not fit a
  signed 64-bit integer: the two global accessors return an array of three elements of
  another element type (in NumPy the double \<open>2^63\<close> three times), not the range of the
  table.
\<close>

theorem far_offset_cells_counterexample:
  "globalOverlappingCellIDs 1000 farWorker = Inr (OtherArray 3)
   \<and> globalNonOverlappingCellIDs 1000 farWorker = Inr (OtherArray 3)
   \<and> globalOverlappingCellIDs 1000 farWorker
        \<noteq> Inr (IntArray [offset farWorker..offset farWorker + nx farWorker - 1])"
  by (simp add: accessor_defs farWorker_def arange_def int64_def Let_def)

text \<open>
  C1, as the code has it. Whatever the geometry and the memory, a cell accessor whose
  two bounds and their difference fit a signed 64-bit integer, and whose range the
  process can allocate, returns exactly the half-open range of the table, as the
  increasing array of its integers: the local overlapping cells run from 0 up to but
  excluding \<open>nx\<close>, the local non-overlapping cells from \<open>overlap.left\<close> to
  \<open>nx - overlap.right\<close>, and the two global views are the same ranges moved by
  \<open>offset\<close>.
\<close>

theorem cell_accessors_ranges:
  "(fits room 0 (nx g) \<longrightarrow> localOverlappingCellIDs room g = Inr (IntArray [0..nx g - 1]))
   \<and> (fits room (left (overlap g)) (nx g - right (overlap g))
        \<longrightarrow> localNonOverlappingCellIDs room g
             = Inr (IntArray [left (overlap g)..nx g - right (overlap g) - 1]))
   \<and> (fits room (offset g) (offset g + nx g)
        \<longrightarrow> globalOverlappingCellIDs room g = Inr (IntArray [offset g..offset g + nx g - 1]))
   \<and> (fits room (offset g + left (overlap g)) (offset g + nx g - right (overlap g))
        \<longrightarrow> globalNonOverlappingCellIDs room g
             = Inr (IntArray [offset g + left (overlap g)
                              ..offset g + nx g - right (overlap g) - 1]))"
  unfolding accessor_defs by (simp add: arange_fits)

theorem cell_accessors_ranges_witness:
  "fits 3 0 (nx workerB)
   \<and> fits 3 (left (overlap workerB)) (nx workerB - right (overlap workerB))
   \<and> fits 3 (offset workerB) (offset workerB + nx workerB)
   \<and> fits 3 (offset workerB + left (overlap workerB))
             (offset workerB + nx workerB - right (overlap workerB))
   \<and> localOverlappingCellIDs 3 workerB = Inr (IntArray [0, 1, 2])
   \<and> localNonOverlappingCellIDs 3 workerB = Inr (IntArray [1, 2])
   \<and> globalOverlappingCellIDs 3 workerB = Inr (IntArray [1, 2, 3])
   \<and> globalNonOverlappingCellIDs 3 workerB = Inr (IntArray [2, 3])"
  using cell_accessors_ranges [of 3 workerB]
  by (simp add: workerB_def fits_def int64_def upto_rec1)

text \<open>
  C2, at a worker whose offset is \<open>2^63 - 2\<close>. The upper bound of its global face IDs,
  \<open>2^63 + 2\<close>, does not fit a signed 64-bit integer: the two global face accessors
  return an array of four elements of another element type, not the range of the
  table.
\<close>

theorem far_offset_faces_counterexample:
  "globalOverlappingFaceIDs 1000 farWorker = Inr (OtherArray 4)
   \<and> globalNonOverlappingFaceIDs 1000 farWorker = Inr (OtherArray 4)
   \<and> globalOverlappingFaceIDs 1000 farWorker
        \<noteq> Inr (IntArray [offset farWorker..offset farWorker + numberOfFaces farWorker - 1])"
  by (simp add: accessor_defs farWorker_def arange_def int64_def Let_def)

text \<open>
  C2, as the code has it. Whatever the geometry and the memory, a face accessor whose
  two bounds and their difference fit a signed 64-bit integer, and whose range the
  process can allocate, returns exactly the half-open range of the table: the local
  overlapping faces run from 0 up to but excluding \<open>numberOfFaces\<close>, the local
  non-overlapping faces from \<open>overlap.left\<close> to \<open>numberOfFaces - overlap.right\<close>, and
  the two global views are the same ranges moved by \<open>offset\<close>.
\<close>

theorem face_accessors_ranges:
  "(fits room 0 (numberOfFaces g)
        \<longrightarrow> localOverlappingFaceIDs room g = Inr (IntArray [0..numberOfFaces g - 1]))
   \<and> (fits room (left (overlap g)) (numberOfFaces g - right (overlap g))
        \<longrightarrow> localNonOverlappingFaceIDs room g
             = Inr (IntArray [left (overlap g)..numberOfFaces g - right (overlap g) - 1]))
   \<and> (fits room (offset g) (offset g + numberOfFaces g)
        \<longrightarrow> globalOverlappingFaceIDs room g
             = Inr (IntArray [offset g..offset g + numberOfFaces g - 1]))
   \<and> (fits room (offset g + left (overlap g)) (offset g + numberOfFaces g - right (overlap g))
        \<longrightarrow> globalNonOverlappingFaceIDs room g
             = Inr (IntArray [offset g + left (overlap g)
                              ..offset g + numberOfFaces g - right (overlap g) - 1]))"
  unfolding accessor_defs by (simp add: arange_fits)

theorem face_accessors_ranges_witness:
  "fits 4 0 (numberOfFaces workerB)
   \<and> fits 4 (left (overlap workerB)) (numberOfFaces workerB - right (overlap workerB))
   \<and> fits 4 (offset workerB) (offset workerB + numberOfFaces workerB)
   \<and> fits 4 (offset workerB + left (overlap workerB))
             (offset workerB + numberOfFaces workerB - right (overlap workerB))
   \<and> localOverlappingFaceIDs 4 workerB = Inr (IntArray [0, 1, 2, 3])
   \<and> localNonOverlappingFaceIDs 4 workerB = Inr (IntArray [1, 2, 3])
   \<and> globalOverlappingFaceIDs 4 workerB = Inr (IntArray [1, 2, 3, 4])
   \<and> globalNonOverlappingFaceIDs 4 workerB = Inr (IntArray [2, 3, 4])"
  using face_accessors_ranges [of 4 workerB]
  by (simp add: workerB_def fits_def int64_def upto_rec1)

section \<open>Global views are local views moved by the offset\<close>

text \<open>
  C5, at a worker whose offset is \<open>2^63 - 2\<close>. The local overlapping cells are 0, 1,
  2, but the global overlapping accessor does not return these moved by the offset: it
  returns an array of another element type, whose values are not the local IDs plus
  the offset.
\<close>

theorem far_offset_shift_counterexample:
  "localOverlappingCellIDs 1000 farWorker = Inr (IntArray [0, 1, 2])
   \<and> globalOverlappingCellIDs 1000 farWorker = Inr (OtherArray 3)
   \<and> globalOverlappingCellIDs 1000 farWorker
        \<noteq> Inr (IntArray [0 + offset farWorker, 1 + offset farWorker, 2 + offset farWorker])"
  by (simp add: accessor_defs farWorker_def arange_def int64_def Let_def upt_rec)

text \<open>
  C5, as the code has it. For cells and for faces, and for the overlapping and the
  non-overlapping view: when the local call and the global call both have bounds that
  fit a signed 64-bit integer and a range the process can allocate, the global accessor
  is the local accessor with \<open>offset\<close> added to every element, so the two sequences
  have the same length and agree position by position.
\<close>

theorem global_is_local_plus_offset:
  "(fits room 0 (nx g) \<and> fits room (offset g) (offset g + nx g)
      \<longrightarrow> localOverlappingCellIDs room g = Inr (IntArray [0..nx g - 1])
          \<and> globalOverlappingCellIDs room g
              = Inr (IntArray (map (\<lambda>i. i + offset g) [0..nx g - 1])))
   \<and> (fits room (left (overlap g)) (nx g - right (overlap g))
       \<and> fits room (offset g + left (overlap g)) (offset g + nx g - right (overlap g))
      \<longrightarrow> localNonOverlappingCellIDs room g
              = Inr (IntArray [left (overlap g)..nx g - right (overlap g) - 1])
          \<and> globalNonOverlappingCellIDs room g
              = Inr (IntArray (map (\<lambda>i. i + offset g)
                                 [left (overlap g)..nx g - right (overlap g) - 1])))
   \<and> (fits room 0 (numberOfFaces g) \<and> fits room (offset g) (offset g + numberOfFaces g)
      \<longrightarrow> localOverlappingFaceIDs room g = Inr (IntArray [0..numberOfFaces g - 1])
          \<and> globalOverlappingFaceIDs room g
              = Inr (IntArray (map (\<lambda>i. i + offset g) [0..numberOfFaces g - 1])))
   \<and> (fits room (left (overlap g)) (numberOfFaces g - right (overlap g))
       \<and> fits room (offset g + left (overlap g))
               (offset g + numberOfFaces g - right (overlap g))
      \<longrightarrow> localNonOverlappingFaceIDs room g
              = Inr (IntArray [left (overlap g)..numberOfFaces g - right (overlap g) - 1])
          \<and> globalNonOverlappingFaceIDs room g
              = Inr (IntArray (map (\<lambda>i. i + offset g)
                                 [left (overlap g)..numberOfFaces g - right (overlap g) - 1])))"
proof (intro conjI impI)
  assume "fits room 0 (nx g) \<and> fits room (offset g) (offset g + nx g)"
  then have "arange room 0 (nx g) = Inr (IntArray [0..nx g - 1])
       \<and> arange room (offset g + 0) (offset g + nx g)
           = Inr (IntArray (map (\<lambda>i. i + offset g) [0..nx g - 1]))"
    by (intro arange_pair_shift) simp_all
  then show "localOverlappingCellIDs room g = Inr (IntArray [0..nx g - 1])"
    and "globalOverlappingCellIDs room g
           = Inr (IntArray (map (\<lambda>i. i + offset g) [0..nx g - 1]))"
    by (simp_all add: accessor_defs)
next
  assume "fits room (left (overlap g)) (nx g - right (overlap g))
       \<and> fits room (offset g + left (overlap g)) (offset g + nx g - right (overlap g))"
  then have "arange room (left (overlap g)) (nx g - right (overlap g))
         = Inr (IntArray [left (overlap g)..nx g - right (overlap g) - 1])
       \<and> arange room (offset g + left (overlap g)) (offset g + (nx g - right (overlap g)))
           = Inr (IntArray (map (\<lambda>i. i + offset g)
                              [left (overlap g)..nx g - right (overlap g) - 1]))"
    by (intro arange_pair_shift) (simp_all add: algebra_simps)
  then show "localNonOverlappingCellIDs room g
           = Inr (IntArray [left (overlap g)..nx g - right (overlap g) - 1])"
    and "globalNonOverlappingCellIDs room g
           = Inr (IntArray (map (\<lambda>i. i + offset g)
                              [left (overlap g)..nx g - right (overlap g) - 1]))"
    by (simp_all add: accessor_defs algebra_simps)
next
  assume "fits room 0 (numberOfFaces g) \<and> fits room (offset g) (offset g + numberOfFaces g)"
  then have "arange room 0 (numberOfFaces g) = Inr (IntArray [0..numberOfFaces g - 1])
       \<and> arange room (offset g + 0) (offset g + numberOfFaces g)
           = Inr (IntArray (map (\<lambda>i. i + offset g) [0..numberOfFaces g - 1]))"
    by (intro arange_pair_shift) simp_all
  then show "localOverlappingFaceIDs room g = Inr (IntArray [0..numberOfFaces g - 1])"
    and "globalOverlappingFaceIDs room g
           = Inr (IntArray (map (\<lambda>i. i + offset g) [0..numberOfFaces g - 1]))"
    by (simp_all add: accessor_defs)
next
  assume "fits room (left (overlap g)) (numberOfFaces g - right (overlap g))
       \<and> fits room (offset g + left (overlap g))
               (offset g + numberOfFaces g - right (overlap g))"
  then have "arange room (left (overlap g)) (numberOfFaces g - right (overlap g))
         = Inr (IntArray [left (overlap g)..numberOfFaces g - right (overlap g) - 1])
       \<and> arange room (offset g + left (overlap g))
                      (offset g + (numberOfFaces g - right (overlap g)))
           = Inr (IntArray (map (\<lambda>i. i + offset g)
                              [left (overlap g)..numberOfFaces g - right (overlap g) - 1]))"
    by (intro arange_pair_shift) (simp_all add: algebra_simps)
  then show "localNonOverlappingFaceIDs room g
           = Inr (IntArray [left (overlap g)..numberOfFaces g - right (overlap g) - 1])"
    and "globalNonOverlappingFaceIDs room g
           = Inr (IntArray (map (\<lambda>i. i + offset g)
                              [left (overlap g)..numberOfFaces g - right (overlap g) - 1]))"
    by (simp_all add: accessor_defs algebra_simps)
qed

theorem global_is_local_plus_offset_witness:
  "fits 4 0 (nx workerB) \<and> fits 4 (offset workerB) (offset workerB + nx workerB)
   \<and> fits 4 (left (overlap workerB)) (nx workerB - right (overlap workerB))
   \<and> fits 4 (offset workerB + left (overlap workerB))
             (offset workerB + nx workerB - right (overlap workerB))
   \<and> fits 4 0 (numberOfFaces workerB)
   \<and> fits 4 (offset workerB) (offset workerB + numberOfFaces workerB)
   \<and> fits 4 (left (overlap workerB)) (numberOfFaces workerB - right (overlap workerB))
   \<and> fits 4 (offset workerB + left (overlap workerB))
             (offset workerB + numberOfFaces workerB - right (overlap workerB))
   \<and> localOverlappingCellIDs 4 workerB = Inr (IntArray [0, 1, 2])
   \<and> globalOverlappingCellIDs 4 workerB = Inr (IntArray [1, 2, 3])
   \<and> localNonOverlappingCellIDs 4 workerB = Inr (IntArray [1, 2])
   \<and> globalNonOverlappingCellIDs 4 workerB = Inr (IntArray [2, 3])
   \<and> localOverlappingFaceIDs 4 workerB = Inr (IntArray [0, 1, 2, 3])
   \<and> globalOverlappingFaceIDs 4 workerB = Inr (IntArray [1, 2, 3, 4])
   \<and> localNonOverlappingFaceIDs 4 workerB = Inr (IntArray [1, 2, 3])
   \<and> globalNonOverlappingFaceIDs 4 workerB = Inr (IntArray [2, 3, 4])"
  using global_is_local_plus_offset [of 4 workerB]
  by (simp add: workerB_def fits_def int64_def upto_rec1)

section \<open>The two-worker scenario\<close>

text \<open>
  C6. In the scenario of two workers on a grid of 4 cells, on a machine with room for
  the three local cells, worker A (offset 0, one ghost cell on the right, 3 local
  cells) has the local non-overlapping cells 0, 1, the local overlapping cells 0, 1, 2,
  the global non-overlapping cells 0, 1 and the global overlapping cells 0, 1, 2;
  worker B (offset 1, one ghost cell on the left, 3 local cells) has the local
  non-overlapping cells 1, 2, the global non-overlapping cells 2, 3 and the global
  overlapping cells 1, 2, 3.
\<close>

theorem two_worker_scenario_cells:
  assumes "3 \<le> room"
  shows "localNonOverlappingCellIDs room workerA = Inr (IntArray [0, 1])
   \<and> localOverlappingCellIDs room workerA = Inr (IntArray [0, 1, 2])
   \<and> globalNonOverlappingCellIDs room workerA = Inr (IntArray [0, 1])
   \<and> globalOverlappingCellIDs room workerA = Inr (IntArray [0, 1, 2])
   \<and> localNonOverlappingCellIDs room workerB = Inr (IntArray [1, 2])
   \<and> globalNonOverlappingCellIDs room workerB = Inr (IntArray [2, 3])
   \<and> globalOverlappingCellIDs room workerB = Inr (IntArray [1, 2, 3])"
  using assms
  by (simp add: accessor_defs workerA_def workerB_def arange_def int64_def Let_def upt_rec)

theorem two_worker_scenario_cells_witness:
  "(3::nat) \<le> 3
   \<and> localNonOverlappingCellIDs 3 workerA = Inr (IntArray [0, 1])
   \<and> localOverlappingCellIDs 3 workerA = Inr (IntArray [0, 1, 2])
   \<and> globalNonOverlappingCellIDs 3 workerA = Inr (IntArray [0, 1])
   \<and> globalOverlappingCellIDs 3 workerA = Inr (IntArray [0, 1, 2])
   \<and> localNonOverlappingCellIDs 3 workerB = Inr (IntArray [1, 2])
   \<and> globalNonOverlappingCellIDs 3 workerB = Inr (IntArray [2, 3])
   \<and> globalOverlappingCellIDs 3 workerB = Inr (IntArray [1, 2, 3])"
  using two_worker_scenario_cells [of 3] by simp

section \<open>The serial geometry\<close>



section \<open>Independence of the decomposition\<close>

text \<open>
  C10. The local overlapping accessors do not depend on the decomposition: two
  geometries with the same \<open>nx\<close> have the same local overlapping cell IDs, and two
  geometries with the same \<open>numberOfFaces\<close> have the same local overlapping face IDs,
  whatever their offsets and overlaps.
\<close>

theorem local_overlapping_independent:
  "(nx g = nx h \<longrightarrow> localOverlappingCellIDs room g = localOverlappingCellIDs room h)
   \<and> (numberOfFaces g = numberOfFaces h
        \<longrightarrow> localOverlappingFaceIDs room g = localOverlappingFaceIDs room h)"
  by (simp add: localOverlappingCellIDs_def localOverlappingFaceIDs_def)

theorem local_overlapping_independent_witness:
  "nx workerA = nx workerB \<and> numberOfFaces workerA = numberOfFaces workerB
   \<and> offset workerA \<noteq> offset workerB \<and> overlap workerA \<noteq> overlap workerB
   \<and> localOverlappingCellIDs 4 workerA = localOverlappingCellIDs 4 workerB
   \<and> localOverlappingFaceIDs 4 workerA = localOverlappingFaceIDs 4 workerB"
  using local_overlapping_independent [of workerA workerB 4]
  by (simp add: workerA_def workerB_def)

section \<open>Workers of one decomposition\<close>




section \<open>Geometries that break the invariants\<close>




section \<open>Contiguity\<close>

text \<open>
  C8, at a worker whose offset is \<open>2^63 - 2\<close>. The geometry satisfies the invariants,
  yet its global overlapping accessors return no sequence of contiguous integers: the
  upper bound does not fit a signed 64-bit integer and the result is an array of
  another element type (in NumPy one double repeated).
\<close>

theorem far_offset_not_contiguous_counterexample:
  "valid_geometry farWorker
   \<and> globalOverlappingCellIDs 1000 farWorker = Inr (OtherArray 3)
   \<and> \<not> contiguous_ids (globalOverlappingCellIDs 1000 farWorker)
   \<and> globalOverlappingFaceIDs 1000 farWorker = Inr (OtherArray 4)
   \<and> \<not> contiguous_ids (globalOverlappingFaceIDs 1000 farWorker)"
  by (simp add: valid_geometry_def accessor_defs farWorker_def arange_def int64_def Let_def)

text \<open>
  C8, as the code has it. For a geometry that satisfies the invariants (no negative
  field, the overlaps together at most \<open>nx\<close> and at most \<open>numberOfFaces\<close>), each of the
  eight accessors whose bounds and their difference fit a signed 64-bit integer, and
  whose range the process can allocate, returns a sequence of integers that is empty
  or in which every element is the one before it plus 1, and that is strictly
  increasing.
\<close>

theorem valid_geometry_contiguous:
  assumes "valid_geometry g"
  shows "(fits room 0 (nx g) \<longrightarrow> contiguous_ids (localOverlappingCellIDs room g))
   \<and> (fits room (left (overlap g)) (nx g - right (overlap g))
        \<longrightarrow> contiguous_ids (localNonOverlappingCellIDs room g))
   \<and> (fits room (offset g) (offset g + nx g)
        \<longrightarrow> contiguous_ids (globalOverlappingCellIDs room g))
   \<and> (fits room (offset g + left (overlap g)) (offset g + nx g - right (overlap g))
        \<longrightarrow> contiguous_ids (globalNonOverlappingCellIDs room g))
   \<and> (fits room 0 (numberOfFaces g) \<longrightarrow> contiguous_ids (localOverlappingFaceIDs room g))
   \<and> (fits room (left (overlap g)) (numberOfFaces g - right (overlap g))
        \<longrightarrow> contiguous_ids (localNonOverlappingFaceIDs room g))
   \<and> (fits room (offset g) (offset g + numberOfFaces g)
        \<longrightarrow> contiguous_ids (globalOverlappingFaceIDs room g))
   \<and> (fits room (offset g + left (overlap g)) (offset g + numberOfFaces g - right (overlap g))
        \<longrightarrow> contiguous_ids (globalNonOverlappingFaceIDs room g))"
  unfolding accessor_defs by (simp add: contiguous_ids_arange)

theorem valid_geometry_contiguous_witness:
  "valid_geometry workerB
   \<and> fits 4 0 (nx workerB)
   \<and> fits 4 (left (overlap workerB)) (nx workerB - right (overlap workerB))
   \<and> fits 4 (offset workerB) (offset workerB + nx workerB)
   \<and> fits 4 (offset workerB + left (overlap workerB))
             (offset workerB + nx workerB - right (overlap workerB))
   \<and> fits 4 0 (numberOfFaces workerB)
   \<and> fits 4 (left (overlap workerB)) (numberOfFaces workerB - right (overlap workerB))
   \<and> fits 4 (offset workerB) (offset workerB + numberOfFaces workerB)
   \<and> fits 4 (offset workerB + left (overlap workerB))
             (offset workerB + numberOfFaces workerB - right (overlap workerB))
   \<and> contiguous_ids (localOverlappingCellIDs 4 workerB)
   \<and> contiguous_ids (localNonOverlappingCellIDs 4 workerB)
   \<and> contiguous_ids (globalOverlappingCellIDs 4 workerB)
   \<and> contiguous_ids (globalNonOverlappingCellIDs 4 workerB)
   \<and> contiguous_ids (localOverlappingFaceIDs 4 workerB)
   \<and> contiguous_ids (localNonOverlappingFaceIDs 4 workerB)
   \<and> contiguous_ids (globalOverlappingFaceIDs 4 workerB)
   \<and> contiguous_ids (globalNonOverlappingFaceIDs 4 workerB)"
proof -
  have v: "valid_geometry workerB"
    by (simp add: valid_geometry_def workerB_def)
  have f: "fits 4 0 (nx workerB)"
    "fits 4 (left (overlap workerB)) (nx workerB - right (overlap workerB))"
    "fits 4 (offset workerB) (offset workerB + nx workerB)"
    "fits 4 (offset workerB + left (overlap workerB))
            (offset workerB + nx workerB - right (overlap workerB))"
    "fits 4 0 (numberOfFaces workerB)"
    "fits 4 (left (overlap workerB)) (numberOfFaces workerB - right (overlap workerB))"
    "fits 4 (offset workerB) (offset workerB + numberOfFaces workerB)"
    "fits 4 (offset workerB + left (overlap workerB))
            (offset workerB + numberOfFaces workerB - right (overlap workerB))"
    by (simp_all add: workerB_def fits_def int64_def)
  from valid_geometry_contiguous [OF v, of 4] v f show ?thesis by simp
qed

section \<open>Totality\<close>

text \<open>
  C9, at the serial mesh of \<open>2^62\<close> cells, which satisfies the invariants. The accessors
  raise \<open>ValueError\<close> there, even on a machine with room for \<open>2^62\<close> elements: an array of
  that many 8-byte elements exceeds the largest array size. A mesh of 1001 cells on a
  machine with room for 1000 elements raises \<open>MemoryError\<close>. The accessors are not
  total.
\<close>

theorem huge_mesh_raises_counterexample:
  "valid_geometry (serialGrid (2 ^ 62))
   \<and> localOverlappingCellIDs (2 ^ 62) (serialGrid (2 ^ 62)) = Inl ValueError
   \<and> globalNonOverlappingCellIDs (2 ^ 62) (serialGrid (2 ^ 62)) = Inl ValueError
   \<and> localOverlappingCellIDs 1000 (serialGrid 1001) = Inl MemoryError"
  by (simp add: valid_geometry_def serialGrid_def accessor_defs arange_def Let_def)

text \<open>
  C9, as the code has it. Take for each accessor the difference of its upper and its
  lower bound: \<open>nx\<close> or \<open>numberOfFaces\<close> for the overlapping views, that count less the
  two overlaps for the non-overlapping views. When the difference is at least \<open>-2^63\<close>
  and at most the number of elements the process can allocate (and below \<open>2^60\<close>), the
  accessor raises nothing and returns an array whose length is the difference when
  that is positive and 0 otherwise, never negative. When the upper bound is at most
  the lower bound, the empty mesh and geometries that break the invariants included,
  the accessor returns the empty sequence whatever the memory.
\<close>

theorem accessors_return_when_allocatable:
  "(- (2 ^ 63) \<le> nx g \<and> nx g \<le> int room \<and> nx g < 2 ^ 60
      \<longrightarrow> result_length (localOverlappingCellIDs room g) = Inr (nat (nx g))
          \<and> result_length (globalOverlappingCellIDs room g) = Inr (nat (nx g)))
   \<and> (- (2 ^ 63) \<le> nx g - right (overlap g) - left (overlap g)
       \<and> nx g - right (overlap g) - left (overlap g) \<le> int room
       \<and> nx g - right (overlap g) - left (overlap g) < 2 ^ 60
      \<longrightarrow> result_length (localNonOverlappingCellIDs room g)
              = Inr (nat (nx g - right (overlap g) - left (overlap g)))
          \<and> result_length (globalNonOverlappingCellIDs room g)
              = Inr (nat (nx g - right (overlap g) - left (overlap g))))
   \<and> (- (2 ^ 63) \<le> numberOfFaces g \<and> numberOfFaces g \<le> int room \<and> numberOfFaces g < 2 ^ 60
      \<longrightarrow> result_length (localOverlappingFaceIDs room g) = Inr (nat (numberOfFaces g))
          \<and> result_length (globalOverlappingFaceIDs room g) = Inr (nat (numberOfFaces g)))
   \<and> (- (2 ^ 63) \<le> numberOfFaces g - right (overlap g) - left (overlap g)
       \<and> numberOfFaces g - right (overlap g) - left (overlap g) \<le> int room
       \<and> numberOfFaces g - right (overlap g) - left (overlap g) < 2 ^ 60
      \<longrightarrow> result_length (localNonOverlappingFaceIDs room g)
              = Inr (nat (numberOfFaces g - right (overlap g) - left (overlap g)))
          \<and> result_length (globalNonOverlappingFaceIDs room g)
              = Inr (nat (numberOfFaces g - right (overlap g) - left (overlap g))))
   \<and> (nx g \<le> 0 \<and> - (2 ^ 63) \<le> nx g
      \<longrightarrow> localOverlappingCellIDs room g = Inr (IntArray [])
          \<and> globalOverlappingCellIDs room g = Inr (IntArray []))
   \<and> (nx g - right (overlap g) - left (overlap g) \<le> 0
       \<and> - (2 ^ 63) \<le> nx g - right (overlap g) - left (overlap g)
      \<longrightarrow> localNonOverlappingCellIDs room g = Inr (IntArray [])
          \<and> globalNonOverlappingCellIDs room g = Inr (IntArray []))
   \<and> (numberOfFaces g \<le> 0 \<and> - (2 ^ 63) \<le> numberOfFaces g
      \<longrightarrow> localOverlappingFaceIDs room g = Inr (IntArray [])
          \<and> globalOverlappingFaceIDs room g = Inr (IntArray []))
   \<and> (numberOfFaces g - right (overlap g) - left (overlap g) \<le> 0
       \<and> - (2 ^ 63) \<le> numberOfFaces g - right (overlap g) - left (overlap g)
      \<longrightarrow> localNonOverlappingFaceIDs room g = Inr (IntArray [])
          \<and> globalNonOverlappingFaceIDs room g = Inr (IntArray []))"
  unfolding accessor_defs
  using arange_whole_total [where n = "nx g" and d = "offset g" and room = room]
    arange_whole_total [where n = "numberOfFaces g" and d = "offset g" and room = room]
    arange_owned_total [where b = "nx g" and c = "right (overlap g)"
      and a = "left (overlap g)" and d = "offset g" and room = room]
    arange_owned_total [where b = "numberOfFaces g" and c = "right (overlap g)"
      and a = "left (overlap g)" and d = "offset g" and room = room]
  by blast

theorem accessors_return_when_allocatable_witness:
  "- (2 ^ 63) \<le> nx ghostOnly \<and> nx ghostOnly \<le> int 0 \<and> nx ghostOnly < 2 ^ 60
   \<and> - (2 ^ 63) \<le> nx ghostOnly - right (overlap ghostOnly) - left (overlap ghostOnly)
   \<and> nx ghostOnly - right (overlap ghostOnly) - left (overlap ghostOnly) \<le> int 0
   \<and> nx ghostOnly - right (overlap ghostOnly) - left (overlap ghostOnly) < 2 ^ 60
   \<and> - (2 ^ 63) \<le> numberOfFaces ghostOnly \<and> numberOfFaces ghostOnly \<le> int 0
   \<and> numberOfFaces ghostOnly < 2 ^ 60
   \<and> - (2 ^ 63) \<le> numberOfFaces ghostOnly - right (overlap ghostOnly) - left (overlap ghostOnly)
   \<and> numberOfFaces ghostOnly - right (overlap ghostOnly) - left (overlap ghostOnly) \<le> int 0
   \<and> numberOfFaces ghostOnly - right (overlap ghostOnly) - left (overlap ghostOnly) < 2 ^ 60
   \<and> nx ghostOnly \<le> 0
   \<and> nx ghostOnly - right (overlap ghostOnly) - left (overlap ghostOnly) \<le> 0
   \<and> numberOfFaces ghostOnly \<le> 0
   \<and> numberOfFaces ghostOnly - right (overlap ghostOnly) - left (overlap ghostOnly) \<le> 0
   \<and> localOverlappingCellIDs 0 ghostOnly = Inr (IntArray [])
   \<and> localNonOverlappingCellIDs 0 ghostOnly = Inr (IntArray [])
   \<and> globalOverlappingCellIDs 0 ghostOnly = Inr (IntArray [])
   \<and> globalNonOverlappingCellIDs 0 ghostOnly = Inr (IntArray [])
   \<and> localOverlappingFaceIDs 0 ghostOnly = Inr (IntArray [])
   \<and> localNonOverlappingFaceIDs 0 ghostOnly = Inr (IntArray [])
   \<and> globalOverlappingFaceIDs 0 ghostOnly = Inr (IntArray [])
   \<and> globalNonOverlappingFaceIDs 0 ghostOnly = Inr (IntArray [])
   \<and> result_length (localOverlappingCellIDs 0 ghostOnly) = Inr 0
   \<and> result_length (globalNonOverlappingFaceIDs 0 ghostOnly) = Inr 0
   \<and> result_length (localOverlappingCellIDs 4 workerB) = Inr 3
   \<and> result_length (localNonOverlappingCellIDs 4 workerB) = Inr 2
   \<and> result_length (globalOverlappingCellIDs 4 workerB) = Inr 3
   \<and> result_length (globalNonOverlappingCellIDs 4 workerB) = Inr 2
   \<and> result_length (localOverlappingFaceIDs 4 workerB) = Inr 4
   \<and> result_length (localNonOverlappingFaceIDs 4 workerB) = Inr 3
   \<and> result_length (globalOverlappingFaceIDs 4 workerB) = Inr 4
   \<and> result_length (globalNonOverlappingFaceIDs 4 workerB) = Inr 3"
  using accessors_return_when_allocatable [of ghostOnly 0]
    accessors_return_when_allocatable [of workerB 4]
  by (simp add: ghostOnly_def workerB_def)

end
